theory Spec2Isabelle
  imports Main "HOL-Library.Char_ord" "HOL-Library.List_Lexorder" "HOL-Library.Sublist"
begin

text \<open>
  A model of \<open>scripts/generate_summary.py\<close>, the script that writes the table of
  contents \<open>SUMMARY.md\<close> of a book: \<open>extract_title\<close>, \<open>is_excluded\<close> and
  \<open>generate_summary\<close>, over a file system given as a table, with the library functions
  they call (\<open>str.title\<close>, \<open>os.path.splitext\<close>, the operations of \<open>pathlib.Path\<close>).
\<close>

section \<open>Python strings\<close>

text \<open>
  A Python \<open>str\<close> is modelled as a \<open>string\<close>; the characters are the code points
  below 256. The case conversions of \<open>str.title\<close> are modelled on the ASCII letters,
  each other character is uncased and unchanged.
\<close>

definition nl :: char where
  "nl = CHR 0x0A"

definition bs :: char where
  "bs = CHR 0x5C"

definition is_lower :: "char \<Rightarrow> bool" where
  "is_lower c = (CHR ''a'' \<le> c \<and> c \<le> CHR ''z'')"

definition is_upper :: "char \<Rightarrow> bool" where
  "is_upper c = (CHR ''A'' \<le> c \<and> c \<le> CHR ''Z'')"

definition is_digit :: "char \<Rightarrow> bool" where
  "is_digit c = (CHR ''0'' \<le> c \<and> c \<le> CHR ''9'')"

definition is_cased :: "char \<Rightarrow> bool" where
  "is_cased c = (if is_lower c then True else is_upper c)"

text \<open>An ASCII letter changes case by its bit of value 32.\<close>

definition to_upper :: "char \<Rightarrow> char" where
  "to_upper c =
     (if is_lower c
      then (case c of Char b0 b1 b2 b3 b4 b5 b6 b7 \<Rightarrow> Char b0 b1 b2 b3 b4 False b6 b7)
      else c)"

definition to_lower :: "char \<Rightarrow> char" where
  "to_lower c =
     (if is_upper c
      then (case c of Char b0 b1 b2 b3 b4 b5 b6 b7 \<Rightarrow> Char b0 b1 b2 b3 b4 True b6 b7)
      else c)"

text \<open>
  \<open>str.title()\<close>: a character that follows a cased character is lowered, every other
  one is put in title case; the flag is \<open>previous_is_cased\<close> of the library's loop.
\<close>

fun title_from :: "bool \<Rightarrow> string \<Rightarrow> string" where
  "title_from previous_is_cased [] = []"
| "title_from previous_is_cased (c # cs) =
     (if previous_is_cased then to_lower c else to_upper c) # title_from (is_cased c) cs"

definition title :: "string \<Rightarrow> string" where
  "title s = title_from False s"

text \<open>\<open>s.replace(a, b)\<close> for single characters \<open>a\<close> and \<open>b\<close>.\<close>

definition replace :: "char \<Rightarrow> char \<Rightarrow> string \<Rightarrow> string" where
  "replace a b s = map (\<lambda>c. if c = a then b else c) s"

text \<open>\<open>s.rfind(c)\<close>: the last index of \<open>c\<close>; \<open>None\<close> stands for Python's \<open>-1\<close>.\<close>

fun rfind :: "char \<Rightarrow> string \<Rightarrow> nat option" where
  "rfind c [] = None"
| "rfind c (x # xs) =
     (case rfind c xs of
        Some i \<Rightarrow> Some (Suc i)
      | None \<Rightarrow> if x = c then Some 0 else None)"

text \<open>\<open>s.split(c)\<close>: the pieces between the occurrences of \<open>c\<close>, never an empty list.\<close>

fun split_on :: "char \<Rightarrow> string \<Rightarrow> string list" where
  "split_on c [] = [[]]"
| "split_on c (x # xs) =
     (if x = c then [] # split_on c xs
      else (case split_on c xs of
              [] \<Rightarrow> [[x]]
            | l # ls \<Rightarrow> (x # l) # ls))"

text \<open>\<open>s.strip()\<close> on the ASCII white space, the trimming the specification speaks of.\<close>

definition is_space :: "char \<Rightarrow> bool" where
  "is_space c = (c \<in> set [CHR '' '', CHR 0x09, CHR 0x0A, CHR 0x0B, CHR 0x0C, CHR 0x0D])"

definition strip :: "string \<Rightarrow> string" where
  "strip s = rev (dropWhile is_space (rev (dropWhile is_space s)))"

section \<open>Paths\<close>

text \<open>
  A path is its string, as \<open>str(path)\<close> gives it: absolute and normalised, which is
  what \<open>Path(book_root).resolve()\<close> and the joins below produce.
\<close>

definition os_path_basename :: "string \<Rightarrow> string" where
  "os_path_basename p = (case rfind CHR ''/'' p of None \<Rightarrow> p | Some i \<Rightarrow> drop (Suc i) p)"

text \<open>
  The first component of \<open>os.path.splitext(p)\<close>: the path is cut at its last dot when that
  dot lies in the last component and a character other than a dot stands before it there.
\<close>

definition splitext_root :: "string \<Rightarrow> string" where
  "splitext_root p =
     (let filenameIndex = (case rfind CHR ''/'' p of None \<Rightarrow> 0 | Some i \<Rightarrow> Suc i)
      in case rfind CHR ''.'' p of
           None \<Rightarrow> p
         | Some dotIndex \<Rightarrow>
             if filenameIndex \<le> dotIndex \<and>
                list_ex (\<lambda>c. c \<noteq> CHR ''.'') (take (dotIndex - filenameIndex) (drop filenameIndex p))
             then take dotIndex p
             else p)"

text \<open>The text a path contributes before a child's name: \<open>/\<close> itself for the root directory.\<close>

definition dir_stem :: "string \<Rightarrow> string" where
  "dir_stem d = (if d = ''/'' then [] else d)"

definition dir_prefix :: "string \<Rightarrow> string" where
  "dir_prefix d = dir_stem d @ ''/''"

text \<open>\<open>d / name\<close>\<close>

definition joinpath :: "string \<Rightarrow> string \<Rightarrow> string" where
  "joinpath d n = dir_prefix d @ n"

text \<open>\<open>p.name\<close>\<close>

definition path_name :: "string \<Rightarrow> string" where
  "path_name p = os_path_basename p"

text \<open>
  \<open>p.relative_to(book_root)\<close>, on the paths the walker passes: all are built from
  \<open>book_root\<close> by joins, where \<open>relative_to\<close> does not raise.
\<close>

definition relative_to :: "string \<Rightarrow> string \<Rightarrow> string" where
  "relative_to book_root p = drop (length (dir_prefix book_root)) p"

text \<open>
  The key by which \<open>sorted\<close> compares two paths: the list of their components, compared as
  lists of strings.
\<close>

definition path_parts :: "string \<Rightarrow> string list" where
  "path_parts p = split_on CHR ''/'' p"

definition sorted_paths :: "string list \<Rightarrow> string list" where
  "sorted_paths ps = sort_key path_parts ps"

definition parent_dir :: "string \<Rightarrow> string" where
  "parent_dir p =
     (case rfind CHR ''/'' p of
        None \<Rightarrow> []
      | Some i \<Rightarrow> if i = 0 then ''/'' else take i p)"

section \<open>The file system\<close>

text \<open>
  The file system is a finite table from paths to nodes, in the order in which the
  operating system lists them. A file holds the text that \<open>f.read()\<close> returns, or
  \<open>None\<close> when opening, reading or decoding it fails. Directories can always be listed.
  A lookup takes the first row of a path.
\<close>

datatype node = Dir | File "string option"

type_synonym filesystem = "(string \<times> node) list"

datatype error = RegexError string | OSError string

definition path_exists :: "filesystem \<Rightarrow> string \<Rightarrow> bool" where
  "path_exists fs p = (map_of fs p \<noteq> None)"

definition is_dir :: "filesystem \<Rightarrow> string \<Rightarrow> bool" where
  "is_dir fs p = (map_of fs p = Some Dir)"

definition is_child :: "string \<Rightarrow> string \<Rightarrow> bool" where
  "is_child d p =
     (prefix (dir_prefix d) p \<and>
      drop (length (dir_prefix d)) p \<noteq> [] \<and>
      CHR ''/'' \<notin> set (drop (length (dir_prefix d)) p))"

text \<open>\<open>d.iterdir()\<close>, in the order of the table.\<close>

definition iterdir :: "filesystem \<Rightarrow> string \<Rightarrow> string list" where
  "iterdir fs d = filter (is_child d) (map fst fs)"

definition ends_with_md :: "string \<Rightarrow> bool" where
  "ends_with_md n = suffix ''.md'' n"

text \<open>\<open>d.glob('*.md')\<close>: nothing when \<open>d\<close> is not a directory.\<close>

definition glob_md :: "filesystem \<Rightarrow> string \<Rightarrow> string list" where
  "glob_md fs d =
     (if is_dir fs d then filter (\<lambda>p. ends_with_md (path_name p)) (iterdir fs d) else [])"

text \<open>\<open>open(p, 'r', encoding='utf-8').read()\<close>; \<open>None\<close> is any exception it raises.\<close>

definition read_text :: "filesystem \<Rightarrow> string \<Rightarrow> string option" where
  "read_text fs p = (case map_of fs p of Some (File (Some content)) \<Rightarrow> Some content | _ \<Rightarrow> None)"

fun fs_update :: "string \<Rightarrow> node \<Rightarrow> filesystem \<Rightarrow> filesystem" where
  "fs_update p n [] = [(p, n)]"
| "fs_update p n ((q, m) # fs) =
     (if q = p then (p, n) # fs else (q, m) # fs_update p n fs)"

text \<open>
  \<open>open(p, 'w', encoding='utf-8')\<close> followed by \<open>f.writelines(content)\<close>: the open fails
  when the parent of \<open>p\<close> is not a directory or \<open>p\<close> is one; otherwise the file holds the
  concatenation of the lines. The path \<open>p\<close> is absolute. A failure in the middle of the
  write is not modelled.
\<close>

definition can_open_w :: "filesystem \<Rightarrow> string \<Rightarrow> bool" where
  "can_open_w fs p = (is_dir fs (parent_dir p) \<and> \<not> is_dir fs p)"

definition write_lines :: "filesystem \<Rightarrow> string \<Rightarrow> string list \<Rightarrow> error + filesystem" where
  "write_lines fs p content =
     (if can_open_w fs p then Inr (fs_update p (File (Some (concat content))) fs)
      else Inl (OSError p))"


section \<open>Regular expressions\<close>

text \<open>
  Python's \<open>re\<close> module is a parameter of the model: an engine compiles a pattern to the
  predicate "\<open>re.search\<close> finds a match in this string", or to \<open>None\<close> when the pattern is
  not a valid regular expression (\<open>re.error\<close>).
\<close>

type_synonym re_engine = "string \<Rightarrow> (string \<Rightarrow> bool) option"

text \<open>
  The instance used to evaluate the program on concrete inputs. It interprets the
  fragment of the default exclusion patterns: ordinary characters, a backslash followed
  by a character that is neither letter nor digit, and a final \<open>$\<close>. Any other use of a
  special character is outside the fragment and answered \<open>None\<close>; for the patterns
  \<open>(\<close>, \<open>[\<close> and \<open>*\<close> that is Python's answer too.
\<close>

definition is_special :: "char \<Rightarrow> bool" where
  "is_special c = (c \<in> set ''.^$*+?{}[]|()'' \<union> {bs})"

definition is_escapable :: "char \<Rightarrow> bool" where
  "is_escapable c = (\<not> is_lower c \<and> \<not> is_upper c \<and> \<not> is_digit c \<and> c < CHR 0x80)"

fun parse_literal :: "string \<Rightarrow> (string \<times> bool) option" where
  "parse_literal [] = Some ([], False)"
| "parse_literal [c] =
     (if c = CHR ''$'' then Some ([], True)
      else if is_special c then None
      else Some ([c], False))"
| "parse_literal (c # d # cs) =
     (if c = bs then
        (if is_escapable d then map_option (\<lambda>(l, a). (d # l, a)) (parse_literal cs) else None)
      else if is_special c then None
      else map_option (\<lambda>(l, a). (c # l, a)) (parse_literal (d # cs)))"

definition re_fragment :: re_engine where
  "re_fragment pat =
     map_option
       (\<lambda>(l, anchored) s.
          if anchored then (if suffix l s then True else suffix (l @ [nl]) s)
          else sublist l s)
       (parse_literal pat)"

section \<open>generate_summary.py\<close>

subsection \<open>extract_title\<close>

text \<open>A line that \<open>^# (.+)$\<close> matches, and the group it captures.\<close>

definition heading_text :: "string \<Rightarrow> string option" where
  "heading_text l = (if take 2 l = ''# '' \<and> drop 2 l \<noteq> [] then Some (drop 2 l) else None)"

text \<open>\<open>re.search(r'^# (.+)$', content, re.MULTILINE)\<close>: the first such line.\<close>

fun first_heading :: "string list \<Rightarrow> string option" where
  "first_heading [] = None"
| "first_heading (l # ls) =
     (case heading_text l of Some t \<Rightarrow> Some t | None \<Rightarrow> first_heading ls)"

definition re_search_heading :: "string \<Rightarrow> string option" where
  "re_search_heading content = first_heading (split_on nl content)"

definition derived_title :: "string \<Rightarrow> string" where
  "derived_title file_path =
     title (replace CHR ''-'' CHR '' '' (splitext_root (os_path_basename file_path)))"

text \<open>
  The \<open>try\<close> block covers the whole body and the handler computes the derived title, so
  the function returns a string on every path; the warning it prints is not modelled.
\<close>

definition extract_title :: "filesystem \<Rightarrow> string \<Rightarrow> string" where
  "extract_title fs file_path =
     (case read_text fs file_path of
        None \<Rightarrow> derived_title file_path
      | Some content \<Rightarrow>
          (case re_search_heading content of
             Some t \<Rightarrow> t
           | None \<Rightarrow> derived_title file_path))"

subsection \<open>is_excluded\<close>

fun is_excluded :: "re_engine \<Rightarrow> string \<Rightarrow> string list \<Rightarrow> error + bool" where
  "is_excluded rx path [] = Inr False"
| "is_excluded rx path (pattern # exclude_patterns) =
     (case rx pattern of
        None \<Rightarrow> Inl (RegexError pattern)
      | Some search \<Rightarrow>
          if search path then Inr True else is_excluded rx path exclude_patterns)"

subsection \<open>generate_summary\<close>

definition default_exclude :: "string list" where
  "default_exclude =
     [''/'' @ [bs] @ ''.'', ''/_'', ''node_modules'', ''book$'',
      ''SUMMARY'' @ [bs] @ ''.md$'']"

text \<open>Lines 40 and 41: the default of the parameter \<open>exclude\<close>.\<close>

definition exclude_or_default :: "string list option \<Rightarrow> string list" where
  "exclude_or_default exclude = (case exclude of None \<Rightarrow> default_exclude | Some ex \<Rightarrow> ex)"

text \<open>The strings appended to \<open>content\<close>: line 47, lines 53, 66 and 96, lines 75 and 87, line 82.\<close>

definition header :: string where
  "header = ''# Summary'' @ [nl, nl]"

definition entry0 :: "string \<Rightarrow> string \<Rightarrow> string" where
  "entry0 t p = ''* ['' @ t @ '']('' @ p @ '')'' @ [nl]"

definition entry1 :: "string \<Rightarrow> string \<Rightarrow> string" where
  "entry1 t p = ''  * ['' @ t @ '']('' @ p @ '')'' @ [nl]"

definition entry_unlinked :: "string \<Rightarrow> string" where
  "entry_unlinked t = ''* ['' @ t @ '']'' @ [nl]"

text \<open>A line of the document below its header: a linked entry at depth 0 or 1, or an unlinked one.\<close>

definition is_entry :: "string \<Rightarrow> bool" where
  "is_entry e = (\<exists>t. (\<exists>p. e = entry0 t p) \<or> (\<exists>p. e = entry1 t p) \<or> e = entry_unlinked t)"

text \<open>
  A list comprehension \<open>[f for f in paths if keep(f) and not is_excluded(f, exclude)]\<close>:
  \<open>is_excluded\<close> is called on the paths that pass \<open>keep\<close> only, in the order of the
  list, and the first exception ends the comprehension.
\<close>

fun select_paths ::
  "re_engine \<Rightarrow> string list \<Rightarrow> (string \<Rightarrow> bool) \<Rightarrow> string list \<Rightarrow> error + string list" where
  "select_paths rx exclude keep [] = Inr []"
| "select_paths rx exclude keep (p # ps) =
     (if keep p then
        (case is_excluded rx p exclude of
           Inl e \<Rightarrow> Inl e
         | Inr excluded \<Rightarrow>
             (case select_paths rx exclude keep ps of
                Inl e \<Rightarrow> Inl e
              | Inr r \<Rightarrow> Inr (if excluded then r else p # r)))
      else select_paths rx exclude keep ps)"

text \<open>The body of the loop over the chapter directories.\<close>

definition chapter_entries ::
  "re_engine \<Rightarrow> filesystem \<Rightarrow> string \<Rightarrow> string list \<Rightarrow> string \<Rightarrow> error + string list" where
  "chapter_entries rx fs book_root exclude chapter_dir =
     (let chapter_readme = joinpath chapter_dir ''README.md'' in
      if path_exists fs chapter_readme then
        (case select_paths rx exclude (\<lambda>f. path_name f \<noteq> ''README.md'') (glob_md fs chapter_dir) of
           Inl e \<Rightarrow> Inl e
         | Inr fs_sel \<Rightarrow>
             Inr (entry0 (extract_title fs chapter_readme) (relative_to book_root chapter_readme) #
                  map (\<lambda>section_file.
                         entry1 (extract_title fs section_file) (relative_to book_root section_file))
                      (sorted_paths fs_sel)))
      else
        (case select_paths rx exclude (\<lambda>f. True) (glob_md fs chapter_dir) of
           Inl e \<Rightarrow> Inl e
         | Inr fs_sel \<Rightarrow>
             (let md_files = sorted_paths fs_sel in
              Inr (if md_files \<noteq> [] then
                     entry_unlinked (title (replace CHR ''-'' CHR '' '' (path_name chapter_dir))) #
                     map (\<lambda>md_file.
                            entry1 (extract_title fs md_file) (relative_to book_root md_file))
                         md_files
                   else []))))"

fun chapters_loop ::
  "re_engine \<Rightarrow> filesystem \<Rightarrow> string \<Rightarrow> string list \<Rightarrow> string list \<Rightarrow> error + string list" where
  "chapters_loop rx fs book_root exclude [] = Inr []"
| "chapters_loop rx fs book_root exclude (chapter_dir # chapter_dirs) =
     (case chapter_entries rx fs book_root exclude chapter_dir of
        Inl e \<Rightarrow> Inl e
      | Inr es \<Rightarrow>
          (case chapters_loop rx fs book_root exclude chapter_dirs of
             Inl e \<Rightarrow> Inl e
           | Inr r \<Rightarrow> Inr (es @ r)))"

text \<open>The introduction entry, lines 49 to 53.\<close>

definition intro_entries :: "filesystem \<Rightarrow> string \<Rightarrow> string list" where
  "intro_entries fs book_root =
     (let readme_path = joinpath book_root ''README.md'' in
      if path_exists fs readme_path then [entry0 (extract_title fs readme_path) ''README.md'']
      else [])"

text \<open>The list \<open>content\<close> as it stands before the output file is opened, lines 47 to 96.\<close>

definition build_content ::
  "re_engine \<Rightarrow> filesystem \<Rightarrow> string \<Rightarrow> string list \<Rightarrow> error + string list" where
  "build_content rx fs book_root exclude =
     (let chapters_dir = joinpath book_root ''chapters'' in
      if path_exists fs chapters_dir \<and> is_dir fs chapters_dir then
        (case select_paths rx exclude (is_dir fs) (iterdir fs chapters_dir) of
           Inl e \<Rightarrow> Inl e
         | Inr ds \<Rightarrow>
             (case chapters_loop rx fs book_root exclude (sorted_paths ds) of
                Inl e \<Rightarrow> Inl e
              | Inr es \<Rightarrow> Inr (header # intro_entries fs book_root @ es)))
      else
        (case select_paths rx exclude
                (\<lambda>f. path_name f \<noteq> ''README.md'' \<and> path_name f \<noteq> ''SUMMARY.md'')
                (glob_md fs book_root) of
           Inl e \<Rightarrow> Inl e
         | Inr fs_sel \<Rightarrow>
             Inr (header # intro_entries fs book_root @
                  map (\<lambda>md_file. entry0 (extract_title fs md_file) (relative_to book_root md_file))
                      (sorted_paths fs_sel))))"

text \<open>
  \<open>generate_summary(book_root, output_file, exclude)\<close>, with \<open>book_root\<close> already resolved.
  The result is the returned list, or the exception that leaves the function, together
  with the file system afterwards. The parameter \<open>indent_level\<close> is not used by the source.
\<close>

definition generate_summary ::
  "re_engine \<Rightarrow> filesystem \<Rightarrow> string \<Rightarrow> string \<Rightarrow> string list option \<Rightarrow>
   (error + string list) \<times> filesystem" where
  "generate_summary rx fs book_root output_file exclude =
     (case build_content rx fs book_root (exclude_or_default exclude) of
        Inl e \<Rightarrow> (Inl e, fs)
      | Inr content \<Rightarrow>
          (case write_lines fs output_file content of
             Inl e \<Rightarrow> (Inl e, fs)
           | Inr fs' \<Rightarrow> (Inr content, fs')))"

section \<open>Example file systems\<close>



definition fs_three_chapters :: filesystem where
  "fs_three_chapters =
     [(''/book'', Dir), (''/book/chapters'', Dir),
      (''/book/chapters/10-appendix'', Dir),
      (''/book/chapters/02-setup'', Dir),
      (''/book/chapters/notes.txt'', File (Some ''text'')),
      (''/book/chapters/01-intro'', Dir),
      (''/book/chapters/10-appendix/README.md'', File (Some ''# Appendix'')),
      (''/book/chapters/02-setup/README.md'', File (Some ''# Setup'')),
      (''/book/chapters/01-intro/README.md'', File (Some ''# Intro''))]"

definition fs_flat :: filesystem where
  "fs_flat =
     [(''/book'', Dir), (''/book/b.md'', File (Some ''# B'')), (''/book/a.md'', File (Some ''# A'')),
      (''/book/README.md'', File (Some ''# Welcome'')), (''/book/SUMMARY.md'', File (Some ''old'')),
      (''/book/toc.md'', File (Some ''# Contents''))]"

definition fs_titles :: filesystem where
  "fs_titles =
     [(''/book'', Dir),
      (''/book/my_file.md'', File (Some ''no heading here'')),
      (''/book/first-steps.md'', File None),
      (''/book/spaced.md'', File (Some (''#  Hello World  '' @ [nl] @ ''body''))),
      (''/book/late.md'',
         File (Some (''intro'' @ [nl] @ ''#nothing'' @ [nl] @ ''# Title'' @ [nl] @ ''# Other'' @ [nl])))]"

definition fs_node_modules :: filesystem where
  "fs_node_modules =
     [(''/book'', Dir), (''/book/chapters'', Dir), (''/book/chapters/node_modules'', Dir),
      (''/book/chapters/node_modules/index.md'', File (Some ''# Index''))]"


definition fs_readmes :: filesystem where
  "fs_readmes =
     [(''/book'', Dir), (''/book/README.md'', File (Some ''# Welcome'')),
      (''/book/chapters'', Dir), (''/book/chapters/01-intro'', Dir),
      (''/book/chapters/01-intro/README.md'', File (Some ''# Getting Started'')),
      (''/book/chapters/01-intro/README-old.md'', File (Some ''# Old''))]"

section \<open>Auxiliary facts\<close>

lemma rfind_append_last:
  "c \<notin> set n \<Longrightarrow> rfind c (pre @ c # n) = Some (length pre)"
proof (induction pre)
  case Nil
  have "rfind c n = None" using Nil by (induction n) auto
  then show ?case by simp
next
  case (Cons x pre)
  then show ?case by simp
qed


lemma split_on_no_sep: "c \<notin> set l \<Longrightarrow> split_on c l = [l]"
  by (induction l) auto

lemma split_on_not_Nil: "split_on c s \<noteq> []"
  by (induction s) (auto split: list.splits)

lemma split_on_line: "c \<notin> set l \<Longrightarrow> split_on c (l @ c # rest) = l # split_on c rest"
  by (induction l) auto

lemma split_on_append_last:
  "c \<notin> set n \<Longrightarrow> split_on c (pre @ c # n) = split_on c pre @ [n]"
proof (induction pre)
  case Nil
  then show ?case by (simp add: split_on_no_sep)
next
  case (Cons x pre)
  then show ?case
    by (cases "split_on c pre") (auto simp: split_on_not_Nil)
qed

lemma basename_joinpath: "CHR ''/'' \<notin> set n \<Longrightarrow> os_path_basename (joinpath d n) = n"
  by (simp add: os_path_basename_def joinpath_def dir_prefix_def rfind_append_last)

lemma path_name_joinpath: "CHR ''/'' \<notin> set n \<Longrightarrow> path_name (joinpath d n) = n"
  by (simp add: path_name_def basename_joinpath)

lemma path_parts_joinpath:
  "CHR ''/'' \<notin> set n \<Longrightarrow> path_parts (joinpath d n) = split_on CHR ''/'' (dir_stem d) @ [n]"
  by (simp add: path_parts_def joinpath_def dir_prefix_def split_on_append_last)

lemma is_child_joinpath: "is_child d p \<Longrightarrow> \<exists>n. p = joinpath d n \<and> n \<noteq> [] \<and> CHR ''/'' \<notin> set n"
  unfolding is_child_def joinpath_def prefix_def by auto

lemma joinpath_is_child: "n \<noteq> [] \<Longrightarrow> CHR ''/'' \<notin> set n \<Longrightarrow> is_child d (joinpath d n)"
  unfolding is_child_def joinpath_def by simp

lemma relative_to_joinpath: "relative_to d (joinpath d n) = n"
  by (simp add: relative_to_def joinpath_def)

lemma append_snoc_le: "(a @ [x] \<le> a @ [y]) = (x \<le> (y::'a::linorder))"
  by (induction a) auto

lemma child_order:
  assumes "is_child d p" "is_child d q"
  shows "(path_parts p \<le> path_parts q) = (path_name p \<le> path_name q)"
proof -
  obtain n where n: "p = joinpath d n" "CHR ''/'' \<notin> set n" using assms(1) is_child_joinpath by blast
  obtain m where m: "q = joinpath d m" "CHR ''/'' \<notin> set m" using assms(2) is_child_joinpath by blast
  show ?thesis by (simp add: n m path_parts_joinpath path_name_joinpath append_snoc_le)
qed

lemma insort_key_cong_order:
  assumes "\<forall>y\<in>set ys. (f x \<le> f y) = (g x \<le> g y)"
  shows "insort_key f x ys = insort_key g x (ys::'a list)"
  using assms by (induction ys) auto

lemma sort_key_cong_order:
  assumes "\<forall>x\<in>set xs. \<forall>y\<in>set xs. (f x \<le> f y) = (g x \<le> g y)"
  shows "sort_key f xs = sort_key g (xs::'a list)"
  using assms
proof (induction xs)
  case Nil
  then show ?case by simp
next
  case (Cons x xs)
  have eq: "sort_key f xs = sort_key g xs" using Cons by simp
  have "\<forall>y\<in>set (sort_key g xs). (f x \<le> f y) = (g x \<le> g y)" using Cons.prems by simp
  then have "insort_key f x (sort_key g xs) = insort_key g x (sort_key g xs)"
    by (rule insort_key_cong_order)
  then show ?case by (simp add: eq)
qed

lemma sorted_paths_children:
  assumes "\<forall>p\<in>set ps. is_child d p"
  shows "sorted_paths ps = sort_key path_name ps"
  unfolding sorted_paths_def
  by (rule sort_key_cong_order) (use assms child_order in blast)

lemma select_paths_filter:
  "select_paths rx ex keep ps = Inr r \<Longrightarrow>
   r = filter (\<lambda>p. keep p \<and> is_excluded rx p ex = Inr False) ps"
proof (induction ps arbitrary: r)
  case Nil
  then show ?case by simp
next
  case (Cons p ps)
  show ?case
  proof (cases "keep p")
    case False
    with Cons show ?thesis by simp
  next
    case True
    with Cons.prems obtain b r' where
      b: "is_excluded rx p ex = Inr b" and r': "select_paths rx ex keep ps = Inr r'"
      and r: "r = (if b then r' else p # r')"
      by (auto split: sum.splits)
    from Cons.IH[OF r'] show ?thesis using True b r by auto
  qed
qed




lemma iterdir_children: "p \<in> set (iterdir fs d) \<Longrightarrow> is_child d p"
  by (simp add: iterdir_def)

lemma glob_md_children: "p \<in> set (glob_md fs d) \<Longrightarrow> is_child d p"
  by (auto simp: glob_md_def iterdir_def split: if_splits)




lemma chapters_loop_blocks:
  "chapters_loop rx fs root ex ds = Inr es \<Longrightarrow>
   \<exists>blocks. map (chapter_entries rx fs root ex) ds = map Inr blocks \<and> es = concat blocks"
proof (induction ds arbitrary: es)
  case Nil
  then show ?case by simp
next
  case (Cons d ds)
  from Cons.prems obtain b r where
    b: "chapter_entries rx fs root ex d = Inr b" and r: "chapters_loop rx fs root ex ds = Inr r"
    and es: "es = b @ r"
    by (auto split: sum.splits)
  from Cons.IH[OF r] obtain blocks where
    "map (chapter_entries rx fs root ex) ds = map Inr blocks" "r = concat blocks" by blast
  then have "map (chapter_entries rx fs root ex) (d # ds) = map Inr (b # blocks) \<and> es = concat (b # blocks)"
    using b es by simp
  then show ?case by blast
qed

lemma is_entry_intros [simp]:
  "is_entry (entry0 t p)" "is_entry (entry1 t p)" "is_entry (entry_unlinked t)"
  unfolding is_entry_def by blast+







lemma generate_summary_Inr:
  "generate_summary rx fs root out exclude = (Inr content, fs') \<Longrightarrow>
   build_content rx fs root (exclude_or_default exclude) = Inr content \<and>
   can_open_w fs out \<and> fs' = fs_update out (File (Some (concat content))) fs"
  unfolding generate_summary_def write_lines_def
  by (auto split: sum.splits if_splits)


lemma sorted_paths_selected:
  assumes "select_paths rx ex keep (glob_md fs d) = Inr sel"
  shows "sorted_paths sel =
         sort_key path_name (filter (\<lambda>f. keep f \<and> is_excluded rx f ex = Inr False) (glob_md fs d))"
proof -
  have sel: "sel = filter (\<lambda>f. keep f \<and> is_excluded rx f ex = Inr False) (glob_md fs d)"
    using assms by (rule select_paths_filter)
  have "\<forall>p\<in>set sel. is_child d p" using sel glob_md_children by auto
  then show ?thesis using sorted_paths_children sel by blast
qed

lemma sorted_paths_selected_dirs:
  assumes "select_paths rx ex keep (iterdir fs d) = Inr sel"
  shows "sorted_paths sel =
         sort_key path_name (filter (\<lambda>f. keep f \<and> is_excluded rx f ex = Inr False) (iterdir fs d))"
proof -
  have sel: "sel = filter (\<lambda>f. keep f \<and> is_excluded rx f ex = Inr False) (iterdir fs d)"
    using assms by (rule select_paths_filter)
  have "\<forall>p\<in>set sel. is_child d p" using sel iterdir_children by auto
  then show ?thesis using sorted_paths_children sel by blast
qed

lemma heading_text_None:
  "(heading_text l = None) = (\<forall>t. l = ''# '' @ t \<longrightarrow> t = [])"
proof
  assume h: "heading_text l = None"
  show "\<forall>t. l = ''# '' @ t \<longrightarrow> t = []"
  proof (intro allI impI)
    fix t assume "l = ''# '' @ t"
    then have "take 2 l = ''# ''" "drop 2 l = t" by simp_all
    with h show "t = []" by (simp add: heading_text_def split: if_splits)
  qed
next
  assume a: "\<forall>t. l = ''# '' @ t \<longrightarrow> t = []"
  show "heading_text l = None"
  proof (cases "take 2 l = ''# ''")
    case True
    then have "l = ''# '' @ drop 2 l" by (metis append_take_drop_id)
    with a have "drop 2 l = []" by blast
    then show ?thesis by (simp add: heading_text_def)
  next
    case False
    then show ?thesis by (simp add: heading_text_def)
  qed
qed

lemma heading_text_Some: "t \<noteq> [] \<Longrightarrow> heading_text (''# '' @ t) = Some t"
  by (simp add: heading_text_def)


lemma first_heading_append:
  "\<forall>l\<in>set before. heading_text l = None \<Longrightarrow>
   first_heading (before @ ls) = first_heading ls"
  by (induction before) auto

lemma split_on_lines:
  "\<forall>l\<in>set before. c \<notin> set l \<Longrightarrow>
   split_on c (concat (map (\<lambda>l. l @ [c]) before) @ s) = before @ split_on c s"
  by (induction before) (auto simp: split_on_line)



lemma is_excluded_raises:
  assumes "rx pat = None"
    and "list_all (\<lambda>q. case rx q of None \<Rightarrow> False | Some search \<Rightarrow> \<not> search path) pre"
  shows "is_excluded rx path (pre @ pat # post) = Inl (RegexError pat)"
  using assms(2)
proof (induction pre)
  case Nil
  then show ?case using assms(1) by simp
next
  case (Cons q pre)
  then show ?case by (auto split: option.splits)
qed

lemma is_excluded_raises_only:
  "is_excluded rx path ex = Inl e \<Longrightarrow>
   \<exists>pre pat post. ex = pre @ pat # post \<and> rx pat = None \<and> e = RegexError pat \<and>
      list_all (\<lambda>q. case rx q of None \<Rightarrow> False | Some search \<Rightarrow> \<not> search path) pre"
proof (induction ex)
  case Nil
  then show ?case by simp
next
  case (Cons q ex)
  show ?case
  proof (cases "rx q")
    case None
    with Cons.prems have "e = RegexError q" by simp
    then have "q # ex = [] @ q # ex \<and> rx q = None \<and> e = RegexError q \<and>
      list_all (\<lambda>q. case rx q of None \<Rightarrow> False | Some search \<Rightarrow> \<not> search path) []"
      using None by simp
    then show ?thesis by blast
  next
    case (Some search)
    with Cons.prems have ns: "\<not> search path" and r: "is_excluded rx path ex = Inl e"
      by (auto split: if_splits)
    from Cons.IH[OF r] obtain pre pat post where
      p: "ex = pre @ pat # post" "rx pat = None" "e = RegexError pat"
         "list_all (\<lambda>q. case rx q of None \<Rightarrow> False | Some search \<Rightarrow> \<not> search path) pre"
      by blast
    then have "q # ex = (q # pre) @ pat # post \<and> rx pat = None \<and> e = RegexError pat \<and>
      list_all (\<lambda>q. case rx q of None \<Rightarrow> False | Some search \<Rightarrow> \<not> search path) (q # pre)"
      using Some ns by simp
    then show ?thesis by blast
  qed
qed

lemma select_paths_raises_first:
  "filter keep ps = p # rest \<Longrightarrow> is_excluded rx p ex = Inl e \<Longrightarrow>
   select_paths rx ex keep ps = Inl e"
proof (induction ps)
  case Nil
  then show ?case by simp
next
  case (Cons q ps)
  then show ?case by (cases "keep q") auto
qed

lemma build_content_raises_first:
  assumes "(if is_dir fs (joinpath book_root ''chapters'')
            then filter (is_dir fs) (iterdir fs (joinpath book_root ''chapters''))
            else filter (\<lambda>f. path_name f \<noteq> ''README.md'' \<and> path_name f \<noteq> ''SUMMARY.md'')
                   (glob_md fs book_root)) = p # rest"
    and "is_excluded rx p ex = Inl e"
  shows "build_content rx fs book_root ex = Inl e"
proof (cases "is_dir fs (joinpath book_root ''chapters'')")
  case True
  then have ex: "path_exists fs (joinpath book_root ''chapters'')"
    by (simp add: is_dir_def path_exists_def)
  from True assms(1) have "filter (is_dir fs) (iterdir fs (joinpath book_root ''chapters'')) = p # rest"
    by simp
  from select_paths_raises_first[OF this assms(2)]
  show ?thesis unfolding build_content_def Let_def using True ex by simp
next
  case False
  with assms(1) have "filter (\<lambda>f. path_name f \<noteq> ''README.md'' \<and> path_name f \<noteq> ''SUMMARY.md'')
                   (glob_md fs book_root) = p # rest"
    by simp
  from select_paths_raises_first[OF this assms(2)]
  show ?thesis unfolding build_content_def Let_def using False by simp
qed
























section \<open>The claims\<close>

subsection \<open>C1: a book root that does not exist\<close>




subsection \<open>C2: exclusion and the README entries\<close>

text \<open>
  C2. The paths of the two \<open>README.md\<close> files match the exclusion pattern \<open>README\<close>, and
  both have an entry in the document; the section file \<open>README-old.md\<close>, which the
  comprehension tests, has none.
\<close>

theorem readme_entries_not_excluded:
  "is_excluded re_fragment ''/book/README.md'' [''README''] = Inr True \<and>
   is_excluded re_fragment ''/book/chapters/01-intro/README.md'' [''README''] = Inr True \<and>
   fst (generate_summary re_fragment fs_readmes ''/book'' ''/book/SUMMARY.md'' (Some [''README''])) =
     Inr [header,
          entry0 ''Welcome'' ''README.md'',
          entry0 ''Getting Started'' ''chapters/01-intro/README.md'']"
  by code_simp

subsection \<open>C3: running twice\<close>




subsection \<open>C4: the title from a heading\<close>

text \<open>
  C4, as amended. When the text of a readable file has a line \<open># text\<close>, the title is the
  text of the first such line, exactly as it stands after \<open>#\<close> and one space (white space
  around it is kept), whatever follows that line.
\<close>

theorem extract_title_heading:
  assumes "read_text fs file_path =
             Some (concat (map (\<lambda>l. l @ [nl]) before) @ ''# '' @ t @ rest)"
    and "\<forall>l\<in>set before. nl \<notin> set l \<and> (\<forall>u. l = ''# '' @ u \<longrightarrow> u = [])"
    and "t \<noteq> []" and "nl \<notin> set t"
    and "rest \<noteq> [] \<longrightarrow> hd rest = nl"
  shows "extract_title fs file_path = t"
proof -
  have nh: "\<forall>l\<in>set before. heading_text l = None"
    using assms(2) by (simp add: heading_text_None)
  have nn: "\<forall>l\<in>set before. nl \<notin> set l" using assms(2) by simp
  have line: "nl \<notin> set (''# '' @ t)" using assms(4) by (simp add: nl_def)
  have "\<exists>more. split_on nl (''# '' @ t @ rest) = (''# '' @ t) # more"
  proof (cases rest)
    case Nil
    then show ?thesis using split_on_no_sep[OF line] by simp
  next
    case (Cons c r)
    with assms(5) have "rest = nl # r" by simp
    then show ?thesis using split_on_line[OF line, of r] by simp
  qed
  then obtain more where m: "split_on nl (''# '' @ t @ rest) = (''# '' @ t) # more" by blast
  have "split_on nl (concat (map (\<lambda>l. l @ [nl]) before) @ ''# '' @ t @ rest) =
        before @ (''# '' @ t) # more"
    using split_on_lines[OF nn, of "''# '' @ t @ rest"] m by simp
  then have "re_search_heading (concat (map (\<lambda>l. l @ [nl]) before) @ ''# '' @ t @ rest) = Some t"
    unfolding re_search_heading_def
    using first_heading_append[OF nh] heading_text_Some[OF assms(3)] by simp
  then show ?thesis using assms(1) by (simp add: extract_title_def)
qed

theorem extract_title_heading_witness:
  "read_text fs_titles ''/book/late.md'' =
     Some (''intro'' @ [nl] @ ''#nothing'' @ [nl] @ ''# Title'' @ [nl] @ ''# Other'' @ [nl]) \<and>
   extract_title fs_titles ''/book/late.md'' = ''Title''"
proof -
  have h1: "read_text fs_titles ''/book/late.md'' =
     Some (concat (map (\<lambda>l. l @ [nl]) [''intro'', ''#nothing'']) @ ''# '' @ ''Title'' @ (nl # ''# Other'' @ [nl]))"
    by code_simp
  have h2: "\<forall>l\<in>set [''intro'', ''#nothing'']. nl \<notin> set l \<and> (\<forall>u. l = ''# '' @ u \<longrightarrow> u = [])"
    by (simp add: nl_def)
  have h3: "''Title'' \<noteq> []" "nl \<notin> set ''Title''" "(nl # ''# Other'' @ [nl]) \<noteq> [] \<longrightarrow> hd (nl # ''# Other'' @ [nl]) = nl"
    by (simp_all add: nl_def)
  have "extract_title fs_titles ''/book/late.md'' = ''Title''"
    by (rule extract_title_heading[OF h1 h2 h3])
  moreover have "read_text fs_titles ''/book/late.md'' =
     Some (''intro'' @ [nl] @ ''#nothing'' @ [nl] @ ''# Title'' @ [nl] @ ''# Other'' @ [nl])"
    by code_simp
  ultimately show ?thesis by simp
qed

text \<open>
  The claim as stated fails: the white space around the heading text is returned with it.
\<close>

theorem extract_title_heading_counterexample:
  "read_text fs_titles ''/book/spaced.md'' = Some (''#  Hello World  '' @ [nl] @ ''body'') \<and>
   extract_title fs_titles ''/book/spaced.md'' = '' Hello World  '' \<and>
   strip '' Hello World  '' = ''Hello World'' \<and>
   extract_title fs_titles ''/book/spaced.md'' \<noteq> strip (extract_title fs_titles ''/book/spaced.md'')"
  by code_simp

subsection \<open>C5: the derived title\<close>




subsection \<open>C6: a book without chapters\<close>

text \<open>
  C6, as amended. When \<open>chapters\<close> is not a directory, the document is the header, the
  introduction entry, and one depth-0 entry for each \<open>*.md\<close> file directly in the root that
  is not excluded and is named neither \<open>README.md\<close> nor \<open>SUMMARY.md\<close>, in the order of the
  file names. The two names are fixed: the configured output path plays no part.
\<close>

theorem root_markdown_fallback:
  assumes "\<not> is_dir fs (joinpath book_root ''chapters'')"
    and "generate_summary rx fs book_root output_file exclude = (Inr content, fs')"
  shows "\<exists>md_files.
           md_files = sort_key path_name
              (filter (\<lambda>f. (path_name f \<noteq> ''README.md'' \<and> path_name f \<noteq> ''SUMMARY.md'') \<and>
                            is_excluded rx f (exclude_or_default exclude) = Inr False)
                 (glob_md fs book_root)) \<and>
           sorted (map path_name md_files) \<and>
           content = header # intro_entries fs book_root @
                     map (\<lambda>f. entry0 (extract_title fs f) (relative_to book_root f)) md_files"
proof -
  define exl where "exl = exclude_or_default exclude"
  have b: "build_content rx fs book_root exl = Inr content"
    using generate_summary_Inr[OF assms(2)] by (simp add: exl_def)
  from b assms(1) obtain sel where
    sel: "select_paths rx exl (\<lambda>f. path_name f \<noteq> ''README.md'' \<and> path_name f \<noteq> ''SUMMARY.md'')
            (glob_md fs book_root) = Inr sel"
    and c: "content = header # intro_entries fs book_root @
              map (\<lambda>f. entry0 (extract_title fs f) (relative_to book_root f)) (sorted_paths sel)"
    unfolding build_content_def Let_def by (auto split: sum.splits)
  show ?thesis using sorted_paths_selected[OF sel] c by (simp add: exl_def)
qed

theorem root_markdown_fallback_witness:
  "\<not> is_dir fs_flat (joinpath ''/book'' ''chapters'') \<and>
   fst (generate_summary re_fragment fs_flat ''/book'' ''/book/SUMMARY.md'' None) =
     Inr [header, ''* [Welcome](README.md)'' @ [nl], ''* [A](a.md)'' @ [nl], ''* [B](b.md)'' @ [nl],
          ''* [Contents](toc.md)'' @ [nl]] \<and>
   (\<exists>md_files.
      md_files = sort_key path_name
         (filter (\<lambda>f. (path_name f \<noteq> ''README.md'' \<and> path_name f \<noteq> ''SUMMARY.md'') \<and>
                       is_excluded re_fragment f (exclude_or_default None) = Inr False)
            (glob_md fs_flat ''/book'')) \<and>
      sorted (map path_name md_files) \<and>
      [header, ''* [Welcome](README.md)'' @ [nl], ''* [A](a.md)'' @ [nl], ''* [B](b.md)'' @ [nl],
       ''* [Contents](toc.md)'' @ [nl]] =
        header # intro_entries fs_flat ''/book'' @
        map (\<lambda>f. entry0 (extract_title fs_flat f) (relative_to ''/book'' f)) md_files)"
proof -
  have h1: "\<not> is_dir fs_flat (joinpath ''/book'' ''chapters'')"
    by code_simp
  have h2: "generate_summary re_fragment fs_flat ''/book'' ''/book/SUMMARY.md'' None =
     (Inr [header, ''* [Welcome](README.md)'' @ [nl], ''* [A](a.md)'' @ [nl], ''* [B](b.md)'' @ [nl],
          ''* [Contents](toc.md)'' @ [nl]],
      snd (generate_summary re_fragment fs_flat ''/book'' ''/book/SUMMARY.md'' None))"
    by code_simp
  note c = root_markdown_fallback[OF h1 h2]
  have h2': "fst (generate_summary re_fragment fs_flat ''/book'' ''/book/SUMMARY.md'' None) =
     Inr [header, ''* [Welcome](README.md)'' @ [nl], ''* [A](a.md)'' @ [nl], ''* [B](b.md)'' @ [nl],
          ''* [Contents](toc.md)'' @ [nl]]"
    using h2 by (metis fst_conv)
  show ?thesis using h1 h2' c by blast
qed

text \<open>
  The claim as stated fails: with the output path \<open>/book/toc.md\<close> the existing output
  file is listed in the document.
\<close>

theorem root_markdown_fallback_counterexample:
  "\<not> is_dir fs_flat (joinpath ''/book'' ''chapters'') \<and>
   path_exists fs_flat ''/book/toc.md'' \<and>
   relative_to ''/book'' ''/book/toc.md'' = ''toc.md'' \<and>
   fst (generate_summary re_fragment fs_flat ''/book'' ''/book/toc.md'' None) =
     Inr [header, ''* [Welcome](README.md)'' @ [nl], ''* [A](a.md)'' @ [nl], ''* [B](b.md)'' @ [nl],
          entry0 ''Contents'' ''toc.md'']"
  by code_simp

subsection \<open>C7: the order of the chapters\<close>

text \<open>
  C7. When \<open>chapters\<close> is a directory, the document is the header, the introduction
  entry, and then the entries of the chapter directories that are not excluded, one
  directory after the other in the order of their names.
\<close>

theorem chapters_in_name_order:
  assumes "is_dir fs (joinpath book_root ''chapters'')"
    and "generate_summary rx fs book_root output_file exclude = (Inr content, fs')"
  shows "\<exists>chapter_dirs blocks.
           chapter_dirs = sort_key path_name
              (filter (\<lambda>d. is_dir fs d \<and> is_excluded rx d (exclude_or_default exclude) = Inr False)
                 (iterdir fs (joinpath book_root ''chapters''))) \<and>
           sorted (map path_name chapter_dirs) \<and>
           map (chapter_entries rx fs book_root (exclude_or_default exclude)) chapter_dirs = map Inr blocks \<and>
           content = header # intro_entries fs book_root @ concat blocks"
proof -
  define exl where "exl = exclude_or_default exclude"
  have b: "build_content rx fs book_root exl = Inr content"
    using generate_summary_Inr[OF assms(2)] by (simp add: exl_def)
  have ex: "path_exists fs (joinpath book_root ''chapters'')"
    using assms(1) by (simp add: is_dir_def path_exists_def)
  from b ex assms(1) obtain ds es where
    ds: "select_paths rx exl (is_dir fs) (iterdir fs (joinpath book_root ''chapters'')) = Inr ds"
    and es: "chapters_loop rx fs book_root exl (sorted_paths ds) = Inr es"
    and c: "content = header # intro_entries fs book_root @ es"
    unfolding build_content_def Let_def by (auto split: sum.splits)
  from chapters_loop_blocks[OF es] obtain blocks where
    bl: "map (chapter_entries rx fs book_root exl) (sorted_paths ds) = map Inr blocks"
        "es = concat blocks" by blast
  show ?thesis using sorted_paths_selected_dirs[OF ds] bl c by (simp add: exl_def)
qed

theorem chapters_in_name_order_witness:
  "is_dir fs_three_chapters (joinpath ''/book'' ''chapters'') \<and>
   fst (generate_summary re_fragment fs_three_chapters ''/book'' ''/book/SUMMARY.md'' None) =
     Inr [header,
          ''* [Intro](chapters/01-intro/README.md)'' @ [nl],
          ''* [Setup](chapters/02-setup/README.md)'' @ [nl],
          ''* [Appendix](chapters/10-appendix/README.md)'' @ [nl]] \<and>
   sort_key path_name
     (filter (\<lambda>d. is_dir fs_three_chapters d \<and> is_excluded re_fragment d (exclude_or_default None) = Inr False)
        (iterdir fs_three_chapters (joinpath ''/book'' ''chapters''))) =
     [''/book/chapters/01-intro'', ''/book/chapters/02-setup'', ''/book/chapters/10-appendix''] \<and>
   (\<exists>chapter_dirs blocks.
      chapter_dirs = sort_key path_name
         (filter (\<lambda>d. is_dir fs_three_chapters d \<and> is_excluded re_fragment d (exclude_or_default None) = Inr False)
            (iterdir fs_three_chapters (joinpath ''/book'' ''chapters''))) \<and>
      sorted (map path_name chapter_dirs) \<and>
      map (chapter_entries re_fragment fs_three_chapters ''/book'' (exclude_or_default None)) chapter_dirs = map Inr blocks \<and>
      [header,
       ''* [Intro](chapters/01-intro/README.md)'' @ [nl],
       ''* [Setup](chapters/02-setup/README.md)'' @ [nl],
       ''* [Appendix](chapters/10-appendix/README.md)'' @ [nl]] =
        header # intro_entries fs_three_chapters ''/book'' @ concat blocks)"
proof -
  have h1: "is_dir fs_three_chapters (joinpath ''/book'' ''chapters'')"
    by code_simp
  have h2: "generate_summary re_fragment fs_three_chapters ''/book'' ''/book/SUMMARY.md'' None =
     (Inr [header,
          ''* [Intro](chapters/01-intro/README.md)'' @ [nl],
          ''* [Setup](chapters/02-setup/README.md)'' @ [nl],
          ''* [Appendix](chapters/10-appendix/README.md)'' @ [nl]],
      snd (generate_summary re_fragment fs_three_chapters ''/book'' ''/book/SUMMARY.md'' None))"
    by code_simp
  have h3: "sort_key path_name
     (filter (\<lambda>d. is_dir fs_three_chapters d \<and> is_excluded re_fragment d (exclude_or_default None) = Inr False)
        (iterdir fs_three_chapters (joinpath ''/book'' ''chapters''))) =
     [''/book/chapters/01-intro'', ''/book/chapters/02-setup'', ''/book/chapters/10-appendix'']"
    by code_simp
  note c = chapters_in_name_order[OF h1 h2]
  have h2': "fst (generate_summary re_fragment fs_three_chapters ''/book'' ''/book/SUMMARY.md'' None) =
     Inr [header,
          ''* [Intro](chapters/01-intro/README.md)'' @ [nl],
          ''* [Setup](chapters/02-setup/README.md)'' @ [nl],
          ''* [Appendix](chapters/10-appendix/README.md)'' @ [nl]]"
    using h2 by (metis fst_conv)
  show ?thesis using h1 h2' h3 c by blast
qed

subsection \<open>C8: a chapter without README\<close>



subsection \<open>C9: the shape of the document\<close>



subsection \<open>C10: a pattern that does not compile\<close>

text \<open>
  C10, as amended. \<open>is_excluded\<close> tries the patterns in order and returns at the first
  match, so it raises on a path exactly when the list has a pattern that does not compile
  and every pattern before it compiles and does not match the path. When it raises on the
  first path the run tests (the first directory under \<open>chapters\<close>, or without \<open>chapters\<close>
  the first \<open>*.md\<close> file of the root other than \<open>README.md\<close> and \<open>SUMMARY.md\<close>), the exception
  leaves \<open>generate_summary\<close> and nothing is written.
\<close>

theorem invalid_pattern_raises:
  "(is_excluded rx path exclude_patterns = Inl e) =
     (\<exists>pre pat post. exclude_patterns = pre @ pat # post \<and> rx pat = None \<and> e = RegexError pat \<and>
        list_all (\<lambda>q. case rx q of None \<Rightarrow> False | Some search \<Rightarrow> \<not> search path) pre) \<and>
   ((if is_dir fs (joinpath book_root ''chapters'')
     then filter (is_dir fs) (iterdir fs (joinpath book_root ''chapters''))
     else filter (\<lambda>f. path_name f \<noteq> ''README.md'' \<and> path_name f \<noteq> ''SUMMARY.md'')
            (glob_md fs book_root)) = path # rest \<and>
    is_excluded rx path exclude_patterns = Inl e \<longrightarrow>
    generate_summary rx fs book_root output_file (Some exclude_patterns) = (Inl e, fs))"
proof (intro conjI impI)
  show "(is_excluded rx path exclude_patterns = Inl e) =
     (\<exists>pre pat post. exclude_patterns = pre @ pat # post \<and> rx pat = None \<and> e = RegexError pat \<and>
        list_all (\<lambda>q. case rx q of None \<Rightarrow> False | Some search \<Rightarrow> \<not> search path) pre)"
    using is_excluded_raises is_excluded_raises_only by blast
next
  assume a: "(if is_dir fs (joinpath book_root ''chapters'')
     then filter (is_dir fs) (iterdir fs (joinpath book_root ''chapters''))
     else filter (\<lambda>f. path_name f \<noteq> ''README.md'' \<and> path_name f \<noteq> ''SUMMARY.md'')
            (glob_md fs book_root)) = path # rest \<and>
    is_excluded rx path exclude_patterns = Inl e"
  then have "build_content rx fs book_root exclude_patterns = Inl e"
    using build_content_raises_first by blast
  then show "generate_summary rx fs book_root output_file (Some exclude_patterns) = (Inl e, fs)"
    by (simp add: generate_summary_def exclude_or_default_def)
qed

theorem invalid_pattern_raises_witness:
  "re_fragment ''('' = None \<and>
   is_excluded re_fragment ''/book/chapters/node_modules'' [''/_'', ''('', ''node_modules''] =
     Inl (RegexError ''('') \<and>
   generate_summary re_fragment fs_node_modules ''/book'' ''/book/SUMMARY.md''
     (Some [''/_'', ''('', ''node_modules'']) = (Inl (RegexError ''(''), fs_node_modules)"
proof -
  have h0: "re_fragment ''('' = None" by code_simp
  have h1: "(if is_dir fs_node_modules (joinpath ''/book'' ''chapters'')
     then filter (is_dir fs_node_modules) (iterdir fs_node_modules (joinpath ''/book'' ''chapters''))
     else filter (\<lambda>f. path_name f \<noteq> ''README.md'' \<and> path_name f \<noteq> ''SUMMARY.md'')
            (glob_md fs_node_modules ''/book'')) = ''/book/chapters/node_modules'' # []"
    by code_simp
  have h2: "is_excluded re_fragment ''/book/chapters/node_modules'' [''/_'', ''('', ''node_modules''] =
     Inl (RegexError ''('')"
    by code_simp
  from invalid_pattern_raises[of re_fragment "''/book/chapters/node_modules''"
      "[''/_'', ''('', ''node_modules'']" "RegexError ''(''" fs_node_modules "''/book''" "[]"
      "''/book/SUMMARY.md''"] h1 h2
  have "generate_summary re_fragment fs_node_modules ''/book'' ''/book/SUMMARY.md''
     (Some [''/_'', ''('', ''node_modules'']) = (Inl (RegexError ''(''), fs_node_modules)"
    by blast
  then show ?thesis using h0 h2 by blast
qed

text \<open>
  The claim as stated fails: the list holds a pattern that does not compile, and
  \<open>is_excluded\<close> returns on the first path it tests, because an earlier pattern matches;
  the run ends normally.
\<close>

theorem invalid_pattern_raises_counterexample:
  "re_fragment ''('' = None \<and>
   filter (is_dir fs_node_modules) (iterdir fs_node_modules (joinpath ''/book'' ''chapters'')) =
     [''/book/chapters/node_modules''] \<and>
   is_excluded re_fragment ''/book/chapters/node_modules'' [''node_modules'', ''(''] = Inr True \<and>
   fst (generate_summary re_fragment fs_node_modules ''/book'' ''/book/SUMMARY.md''
          (Some [''node_modules'', ''(''])) = Inr [header]"
  by code_simp

end
